theory Spec2Isabelle
  imports Complex_Main "HOL-Library.Stream"
begin

section \<open>The heuristic scoring engine of \<^verbatim>\<open>src/services/geminiService.ts\<close>\<close>

text \<open>
  The repository's only algorithmic code is \<^verbatim>\<open>analyzeResume\<close>. Its embedding follows the
  source line by line and keeps the names of its local constants.

  \<^item> A text is a list of UTF-16 code units; the model covers the texts whose code units lie in
    U+0000..U+00FF, one \<^typ>\<open>char\<close> each (ASCII and Latin-1).
  \<^item> A JavaScript number is a \<^typ>\<open>real\<close>: arithmetic is exact, \<^verbatim>\<open>Math.sqrt\<close> is
    \<^const>\<open>sqrt\<close>, and \<^verbatim>\<open>Math.round x\<close> is \<open>\<lfloor>x + 1/2\<rfloor>\<close>.
  \<^item> \<^verbatim>\<open>Math.random()\<close> reads a process-wide generator. The generator is an explicit state, the
    stream of the values it will return, each in \<open>[0, 1)\<close>; a call takes the head of the stream.
  \<^item> The \<^verbatim>\<open>await\<close> of a 1500 ms timer at the start of the function computes nothing and is
    left out.
  \<^item> No operation of the function throws on a string argument (a division by zero would give
    \<^verbatim>\<open>NaN\<close> or \<^verbatim>\<open>Infinity\<close>, not an exception), so the model is a total function without an
    error branch; the denominators are shown to be non-zero where a claim is about them.
\<close>

subsection \<open>Character classes\<close>

definition code_unit :: "char \<Rightarrow> nat" where
  "code_unit c = of_char c"

text \<open>The class \<^verbatim>\<open>[.!?]\<close>.\<close>

definition is_terminator :: "char \<Rightarrow> bool" where
  "is_terminator c = (c = CHR ''.'' \<or> c = CHR ''!'' \<or> c = CHR ''?'')"

text \<open>The class \<^verbatim>\<open>[^.!?]\<close>.\<close>

definition non_terminator :: "char \<Rightarrow> bool" where
  "non_terminator c = (\<not> is_terminator c)"

text \<open>The class \<^verbatim>\<open>\w\<close>, which is \<^verbatim>\<open>[A-Za-z0-9_]\<close> in a regular expression without the
  unicode flag.\<close>

definition is_word_char :: "char \<Rightarrow> bool" where
  "is_word_char c =
     (let n = code_unit c in
      (48 \<le> n \<and> n \<le> 57) \<or> (65 \<le> n \<and> n \<le> 90) \<or> n = 95 \<or> (97 \<le> n \<and> n \<le> 122))"

text \<open>The class \<^verbatim>\<open>\s\<close>, which is also the set of characters \<^verbatim>\<open>trim\<close> removes: tab, line
  feed, vertical tab, form feed, carriage return, space and, in Latin-1, the no-break space.\<close>

definition is_space :: "char \<Rightarrow> bool" where
  "is_space c =
     (let n = code_unit c in (9 \<le> n \<and> n \<le> 13) \<or> n = 32 \<or> n = 160)"

text \<open>\<^verbatim>\<open>toLowerCase\<close> on one code unit: \<^verbatim>\<open>A-Z\<close>, and the Latin-1 capitals U+00C0..U+00DE
  except the multiplication sign U+00D7, move up by 32.\<close>

definition lower_char :: "char \<Rightarrow> char" where
  "lower_char c =
     (let n = code_unit c in
      if (65 \<le> n \<and> n \<le> 90) \<or> (192 \<le> n \<and> n \<le> 222 \<and> n \<noteq> 215)
      then char_of (n + 32) else c)"

definition toLowerCase :: "string \<Rightarrow> string" where
  "toLowerCase s = map lower_char s"

subsection \<open>The string primitives the function calls\<close>

text \<open>
  \<^verbatim>\<open>s.match(/[^.!?]+[.!?]+/g)\<close>. The search starts at the first code unit. At a start position
  the greedy \<^verbatim>\<open>[^.!?]+\<close> takes the whole run of non-terminators and the greedy \<^verbatim>\<open>[.!?]+\<close> the
  whole run of terminators after it; giving back characters of the first run never helps, since
  the next character would then be a non-terminator. Where either run is empty the attempt
  fails and the search moves one code unit on; after a match it goes on behind the match.
\<close>

function scan_sentences :: "string \<Rightarrow> string list" where
  "scan_sentences [] = []"
| "scan_sentences (c # cs) =
     (let body = takeWhile non_terminator (c # cs);
          rest = dropWhile non_terminator (c # cs);
          marks = takeWhile is_terminator rest;
          rest' = dropWhile is_terminator rest
      in if body \<noteq> [] \<and> marks \<noteq> []
         then (body @ marks) # scan_sentences rest'
         else scan_sentences cs)"
  by pat_completeness auto
termination
proof (relation "measure length", goal_cases)
  case 1
  show ?case by simp
next
  case (2 c cs body rest marks rest')
  have "length (dropWhile is_terminator (dropWhile non_terminator (c # cs)))
          \<le> length (dropWhile non_terminator (c # cs))"
    by (rule length_dropWhile_le)
  moreover have "length (dropWhile non_terminator (c # cs)) < length (c # cs)"
    using 2 by (cases "non_terminator c") (auto intro: le_imp_less_Suc length_dropWhile_le)
  ultimately show ?case using 2 by simp
next
  case 3
  then show ?case by simp
qed

text \<open>
  \<^verbatim>\<open>s.match(/\b\w+\b/g)\<close>. An attempt succeeds only at a word character; the search reaches
  one only at the start of the text or behind a non-word character, so the leading \<^verbatim>\<open>\b\<close>
  holds there. The greedy \<^verbatim>\<open>\w+\<close> takes the whole run, behind which the trailing \<^verbatim>\<open>\b\<close>
  holds; behind a shorter prefix it would not.
\<close>

function scan_words :: "string \<Rightarrow> string list" where
  "scan_words [] = []"
| "scan_words (c # cs) =
     (if is_word_char c
      then takeWhile is_word_char (c # cs) # scan_words (dropWhile is_word_char cs)
      else scan_words cs)"
  by pat_completeness auto
termination
  by (relation "measure length") (auto intro: le_imp_less_Suc length_dropWhile_le)

text \<open>\<^verbatim>\<open>String.prototype.match\<close> with a global regular expression returns \<^verbatim>\<open>null\<close>, not an
  empty array, when nothing matches.\<close>

definition match_result :: "string list \<Rightarrow> string list option" where
  "match_result ms = (if ms = [] then None else Some ms)"

text \<open>\<^verbatim>\<open>s.trim()\<close>.\<close>

definition trim :: "string \<Rightarrow> string" where
  "trim s = rev (dropWhile is_space (rev (dropWhile is_space s)))"

text \<open>
  \<^verbatim>\<open>s.split(/\s+/)\<close>: the pieces between the maximal runs of white space. The empty string
  gives one empty piece; white space at the start or at the end gives an empty piece there.
  \<open>cur\<close> is the piece being read.
\<close>

function split_ws_from :: "string \<Rightarrow> string \<Rightarrow> string list" where
  "split_ws_from cur [] = [cur]"
| "split_ws_from cur (c # cs) =
     (if is_space c then cur # split_ws_from [] (dropWhile is_space cs)
      else split_ws_from (cur @ [c]) cs)"
  by pat_completeness auto
termination
  by (relation "measure (\<lambda>(cur, s). length s)") (auto intro: le_imp_less_Suc length_dropWhile_le)

definition split_ws :: "string \<Rightarrow> string list" where
  "split_ws s = split_ws_from [] s"

text \<open>\<^verbatim>\<open>n || 1\<close> on a length.\<close>

definition or_one :: "nat \<Rightarrow> nat" where
  "or_one n = (if n = 0 then 1 else n)"

text \<open>\<^verbatim>\<open>Math.round\<close>.\<close>

definition Math_round :: "real \<Rightarrow> int" where
  "Math_round x = \<lfloor>x + 1 / 2\<rfloor>"

text \<open>The decimal digits of a number, as a template literal writes a non-negative integer.\<close>

fun digits :: "nat \<Rightarrow> string" where
  "digits n =
     (if n < 10 then [char_of (48 + n)]
      else digits (n div 10) @ [char_of (48 + n mod 10)])"

text \<open>\<^verbatim>\<open>Math.random()\<close>: the next value of the generator and the generator after the call.\<close>

type_synonym rng = "real stream"

definition Math_random :: "rng \<Rightarrow> real \<times> rng" where
  "Math_random g = (shd g, stl g)"

subsection \<open>Tokenizer and feature extractor (lines 19 to 52)\<close>

definition cleanText :: "string \<Rightarrow> string" where
  "cleanText text = toLowerCase text"

definition sentences :: "string \<Rightarrow> string list" where
  "sentences text =
     (case match_result (scan_sentences text) of None \<Rightarrow> [text] | Some ms \<Rightarrow> ms)"

definition words :: "string \<Rightarrow> string list" where
  "words text =
     (case match_result (scan_words (cleanText text)) of None \<Rightarrow> [] | Some ms \<Rightarrow> ms)"

definition sentenceLengths :: "string \<Rightarrow> nat list" where
  "sentenceLengths text = map (\<lambda>s. length (split_ws (trim s))) (sentences text)"

definition avgLen :: "string \<Rightarrow> real" where
  "avgLen text =
     foldl (\<lambda>a b. a + real b) 0 (sentenceLengths text)
       / real (or_one (length (sentenceLengths text)))"

definition variance :: "string \<Rightarrow> real" where
  "variance text =
     foldl (\<lambda>a b. a + (real b - avgLen text) ^ 2) 0 (sentenceLengths text)
       / real (or_one (length (sentenceLengths text)))"

definition stdDev :: "string \<Rightarrow> real" where
  "stdDev text = sqrt (variance text)"

definition burstinessScore :: "string \<Rightarrow> real" where
  "burstinessScore text = min 100 (max 0 (stdDev text * 8))"

definition uniqueWords :: "string \<Rightarrow> string set" where
  "uniqueWords text = set (words text)"

definition ttr :: "string \<Rightarrow> real" where
  "ttr text =
     (if length (words text) > 0
      then real (card (uniqueWords text)) / real (length (words text)) else 0)"

definition vocabScore :: "string \<Rightarrow> real" where
  "vocabScore text = min 100 (max 0 (ttr text * 160))"

definition aiMarkers :: "string list" where
  "aiMarkers =
     [''spearheaded'', ''orchestrated'', ''leveraged'', ''utilized'', ''seamlessly'',
      ''pivotal'', ''transformative'', ''robust'', ''paradigm'', ''synergy'',
      ''demonstrated'', ''proven track record'', ''dynamic'', ''meticulous'',
      ''navigated'', ''fostered'', ''results-driven'', ''visionary'']"

definition markerCount :: "string \<Rightarrow> nat" where
  "markerCount text = length (filter (\<lambda>w. w \<in> set aiMarkers) (words text))"

definition markerDensity :: "string \<Rightarrow> real" where
  "markerDensity text =
     (if length (words text) > 0
      then real (markerCount text) / real (length (words text)) else 0)"

subsection \<open>Scorer (lines 56 to 69)\<close>

text \<open>\<open>r\<close> is the value \<^verbatim>\<open>Math.random()\<close> returns on line 63. The variable \<^verbatim>\<open>aiScore\<close> is
  assigned five times and then clamped; \<open>s1\<close> to \<open>s5\<close> are its successive values.\<close>

definition jitter :: "real \<Rightarrow> real" where
  "jitter r = r * 10 - 5"

definition aiScore :: "string \<Rightarrow> real \<Rightarrow> real" where
  "aiScore text r =
     (let s1 = 50;
          s2 = s1 + (12 - stdDev text) * 3;
          s3 = s2 + (0.55 - ttr text) * 60;
          s4 = s3 + markerDensity text * 800;
          s5 = s4 + jitter r
      in max 5 (min 98 s5))"

definition isAi :: "string \<Rightarrow> real \<Rightarrow> bool" where
  "isAi text r = (aiScore text r > 55)"

definition humanScore :: "string \<Rightarrow> real \<Rightarrow> real" where
  "humanScore text r = 100 - aiScore text r"

subsection \<open>Flag generator (lines 72 to 76)\<close>

definition flag_monotonic :: string where
  "flag_monotonic = ''Monotonic sentence structure (Low Burstiness)''"

definition flag_buzzwords :: "nat \<Rightarrow> string" where
  "flag_buzzwords n = ''High density of buzzwords ('' @ digits n @ '' found)''"

definition flag_repetitive :: string where
  "flag_repetitive = ''Repetitive vocabulary usage''"

definition flag_none :: string where
  "flag_none = ''No significant AI anomalies detected''"

text \<open>\<^verbatim>\<open>flags.push(x)\<close> appends to the array; \<open>f0\<close> to \<open>f4\<close> are the array after each
  statement.\<close>

definition flags_of :: "string \<Rightarrow> string list" where
  "flags_of text =
     (let f0 = [];
          f1 = (if stdDev text < 6 then f0 @ [flag_monotonic] else f0);
          f2 = (if markerCount text > 2 then f1 @ [flag_buzzwords (markerCount text)] else f1);
          f3 = (if ttr text < 0.4 then f2 @ [flag_repetitive] else f2);
          f4 = (if length f3 = 0 then f3 @ [flag_none] else f3)
      in f4)"

subsection \<open>Result assembler (lines 78 to 97)\<close>

record LinguisticAnalysis =
  perplexityScore :: int
  burstinessScore_field :: int
  vocabularyRichness :: int
  sentenceVariety :: int

record AnalysisResult =
  isAiGenerated :: bool
  aiProbability :: int
  humanProbability :: int
  verdictHeadline :: string
  summary :: string
  linguisticAnalysis :: LinguisticAnalysis
  flags :: "string list"
  suggestions :: "string list"

definition summary_ai :: string where
  "summary_ai = ''The text exhibits characteristic uniformity in sentence structure and a high frequency of generic professional keywords often associated with AI language models.''"

definition summary_human :: string where
  "summary_human = ''The writing exhibits natural variance in sentence length and vocabulary usage, suggesting authentic human composition with a unique personal voice.''"

definition suggestions_ai :: "string list" where
  "suggestions_ai =
     [''Vary your sentence lengths significantly'',
      ''Replace generic buzzwords (e.g., 'leveraged') with specific actions'',
      ''Add personal anecdotes or gritty details'']"

definition suggestions_human :: "string list" where
  "suggestions_human =
     [''Maintain this natural tone'',
      ''Ensure specific metrics are included to back up claims'']"

text \<open>The function itself: the generator before the call goes in, the record and the
  generator after the call come out. The first value drawn is the one of line 63, the second
  the one of line 88.\<close>

definition analyzeResume :: "string \<Rightarrow> rng \<Rightarrow> AnalysisResult \<times> rng" where
  "analyzeResume text g =
     (let (r, g1) = Math_random g;
          (r', g2) = Math_random g1
      in (\<lparr> isAiGenerated = isAi text r,
             aiProbability = Math_round (aiScore text r),
             humanProbability = Math_round (humanScore text r),
             verdictHeadline =
               (if isAi text r then ''Likely AI-Generated Pattern'' else ''Likely Human-Written''),
             summary = (if isAi text r then summary_ai else summary_human),
             linguisticAnalysis =
               \<lparr> perplexityScore = Math_round (humanScore text r * 0.8 + r' * 20),
                 burstinessScore_field = Math_round (burstinessScore text),
                 vocabularyRichness = Math_round (vocabScore text),
                 sentenceVariety = Math_round (min 100 (variance text * 2)) \<rparr>,
             flags = flags_of text,
             suggestions = (if isAi text r then suggestions_ai else suggestions_human) \<rparr>,
          g2))"

subsection \<open>The scorer as the specification words it\<close>



subsection \<open>The specification's words for sentences and for the buzzword set\<close>

text \<open>A sentence as the specification describes it: a non-empty run of non-terminators
  followed by one or more terminators and nothing else.\<close>

definition terminated_run :: "string \<Rightarrow> bool" where
  "terminated_run s =
     (let body = takeWhile non_terminator s;
          marks = dropWhile non_terminator s
      in body \<noteq> [] \<and> marks \<noteq> [] \<and> list_all is_terminator marks)"

text \<open>The buzzword set without its two entries \<^verbatim>\<open>proven track record\<close> and
  \<^verbatim>\<open>results-driven\<close>.\<close>

definition matchable_markers :: "string list" where
  "matchable_markers =
     [''spearheaded'', ''orchestrated'', ''leveraged'', ''utilized'', ''seamlessly'',
      ''pivotal'', ''transformative'', ''robust'', ''paradigm'', ''synergy'',
      ''demonstrated'', ''dynamic'', ''meticulous'',
      ''navigated'', ''fostered'', ''visionary'']"

subsection \<open>Example texts\<close>

text \<open>Eighteen copies of the buzzword \<^verbatim>\<open>leveraged\<close>, each followed by a period.\<close>

definition leveraged18 :: string where
  "leveraged18 = concat (replicate 18 ''leveraged.'')"


section \<open>Properties\<close>

subsection \<open>Ranges of the features\<close>

lemma foldl_add_sum_list:
  "foldl (\<lambda>a b. a + f b) a xs = a + sum_list (map f xs)"
  by (induction xs arbitrary: a) (simp_all add: add.assoc)

lemma or_one_pos: "0 < or_one n"
  by (simp add: or_one_def)

lemma variance_nonneg: "0 \<le> variance text"
proof -
  have "0 \<le> sum_list (map (\<lambda>b. (real b - avgLen text) ^ 2) (sentenceLengths text))"
    by (rule sum_list_nonneg) auto
  then show ?thesis
    by (simp add: variance_def foldl_add_sum_list)
qed

lemma stdDev_nonneg: "0 \<le> stdDev text"
  by (simp add: stdDev_def variance_nonneg)

lemma ttr_range: "0 \<le> ttr text \<and> ttr text \<le> 1"
  by (simp add: ttr_def uniqueWords_def card_length)

lemma markerDensity_range: "0 \<le> markerDensity text \<and> markerDensity text \<le> 1"
  by (simp add: markerDensity_def markerCount_def)

lemma aiScore_range: "5 \<le> aiScore text r \<and> aiScore text r \<le> 98"
  by (simp add: aiScore_def Let_def)

lemma Math_round_ge: "real_of_int a \<le> x \<Longrightarrow> a \<le> Math_round x"
  unfolding Math_round_def by linarith

lemma Math_round_le: "x \<le> real_of_int b \<Longrightarrow> Math_round x \<le> b"
  unfolding Math_round_def by linarith

lemma sentences_nonempty: "sentences text \<noteq> []"
  by (simp add: sentences_def match_result_def)

subsection \<open>The features of the text \<^verbatim>\<open>a b\<close>\<close>

text \<open>One sentence of two distinct words and no buzzword: the deterministic part of the score
  is 59, inside the clamp.\<close>

lemma ab_sentenceLengths: "sentenceLengths ''a b'' = [2]"
  by code_simp

lemma ab_words: "words ''a b'' = [''a'', ''b'']"
  by code_simp

lemma ab_variance: "variance ''a b'' = 0"
  by (simp add: variance_def avgLen_def ab_sentenceLengths or_one_def)

lemma ab_stdDev: "stdDev ''a b'' = 0"
  by (simp add: stdDev_def ab_variance)

lemma ab_ttr: "ttr ''a b'' = 1"
  by (simp add: ttr_def uniqueWords_def ab_words)

lemma ab_markerCount: "markerCount ''a b'' = 0"
  by code_simp

lemma ab_markerDensity: "markerDensity ''a b'' = 0"
  by (simp add: markerDensity_def ab_markerCount)

lemma ab_aiScore: "aiScore ''a b'' r = max 5 (min 98 (59 + jitter r))"
  by (simp add: aiScore_def ab_stdDev ab_ttr ab_markerDensity)

subsection \<open>The scorer\<close>





subsection \<open>Rounding the two percentages\<close>

text \<open>The sum of the two rounded percentages is 100 unless the fractional part of the score
  is exactly one half; then it is 101.\<close>

lemma Math_round_complement:
  "Math_round x + Math_round (100 - x) = (if frac x = 1 / 2 then 101 else 100)"
proof -
  define n where "n = \<lfloor>x\<rfloor>"
  define f where "f = frac x"
  have x: "x = real_of_int n + f" and f: "0 \<le> f" "f < 1"
    unfolding n_def f_def frac_def by linarith+
  show ?thesis
  proof (cases "f < 1 / 2")
    case True
    then have "\<lfloor>x + 1 / 2\<rfloor> = n" and "\<lfloor>100 - x + 1 / 2\<rfloor> = 100 - n"
      using x f by linarith+
    then show ?thesis
      using True by (simp add: Math_round_def f_def [symmetric])
  next
    case False
    show ?thesis
    proof (cases "f = 1 / 2")
      case True
      then have "\<lfloor>x + 1 / 2\<rfloor> = n + 1" and "\<lfloor>100 - x + 1 / 2\<rfloor> = 100 - n"
        using x by linarith+
      then show ?thesis
        using True by (simp add: Math_round_def f_def [symmetric])
    next
      case ne: False
      then have "\<lfloor>x + 1 / 2\<rfloor> = n + 1" and "\<lfloor>100 - x + 1 / 2\<rfloor> = 100 - n - 1"
        using x f False by linarith+
      then show ?thesis
        using ne by (simp add: Math_round_def f_def [symmetric])
    qed
  qed
qed

lemma probabilities_sum:
  "aiProbability (fst (analyzeResume text g)) + humanProbability (fst (analyzeResume text g))
     = (if frac (aiScore text (shd g)) = 1 / 2 then 101 else 100)"
  by (simp add: analyzeResume_def Math_random_def humanScore_def Math_round_complement)

text \<open>
  Claim C2. The two reported percentages are meant to sum to 100. They are rounded separately,
  and \<^verbatim>\<open>Math.round\<close> rounds a half up: for the text \<^verbatim>\<open>a b\<close> and the generator value 0.55 the
  score is 59.5, the percentages are 60 and 41, and their sum is 101.
\<close>

theorem C2_sum_is_101_at_tie:
  "aiProbability (fst (analyzeResume ''a b'' (sconst 0.55)))
     + humanProbability (fst (analyzeResume ''a b'' (sconst 0.55))) = 101"
  by (simp add: analyzeResume_def Math_random_def humanScore_def ab_aiScore jitter_def
      Math_round_def)




lemma humanScore_range: "2 \<le> humanScore text r \<and> humanScore text r \<le> 95"
  using aiScore_range [of "text" r] by (simp add: humanScore_def)

text \<open>
  Claim C4. For every text and all generator values in \<open>[0, 1)\<close>, the reported percentage
  lies in \<open>[5, 98]\<close> and each of the four linguistic sub-scores lies in \<open>[0, 100]\<close>. The
  perplexity proxy is not clamped by the code; it stays in range because the human score lies
  in \<open>[2, 95]\<close>.
\<close>

theorem C4_fields_in_range:
  assumes "0 \<le> shd g" and "shd g < 1" and "0 \<le> shd (stl g)" and "shd (stl g) < 1"
  shows "5 \<le> aiProbability (fst (analyzeResume text g))
         \<and> aiProbability (fst (analyzeResume text g)) \<le> 98
         \<and> 0 \<le> perplexityScore (linguisticAnalysis (fst (analyzeResume text g)))
         \<and> perplexityScore (linguisticAnalysis (fst (analyzeResume text g))) \<le> 100
         \<and> 0 \<le> burstinessScore_field (linguisticAnalysis (fst (analyzeResume text g)))
         \<and> burstinessScore_field (linguisticAnalysis (fst (analyzeResume text g))) \<le> 100
         \<and> 0 \<le> vocabularyRichness (linguisticAnalysis (fst (analyzeResume text g)))
         \<and> vocabularyRichness (linguisticAnalysis (fst (analyzeResume text g))) \<le> 100
         \<and> 0 \<le> sentenceVariety (linguisticAnalysis (fst (analyzeResume text g)))
         \<and> sentenceVariety (linguisticAnalysis (fst (analyzeResume text g))) \<le> 100"
proof -
  let ?r = "shd g" and ?r' = "shd (stl g)"
  have ai: "5 \<le> Math_round (aiScore text ?r) \<and> Math_round (aiScore text ?r) \<le> 98"
    using aiScore_range [of "text" ?r] by (simp add: Math_round_ge Math_round_le)
  have "0 \<le> humanScore text ?r * 0.8 + ?r' * 20"
    and "humanScore text ?r * 0.8 + ?r' * 20 \<le> 100"
    using humanScore_range [of "text" ?r] assms by simp_all
  then have perp: "0 \<le> Math_round (humanScore text ?r * 0.8 + ?r' * 20)
      \<and> Math_round (humanScore text ?r * 0.8 + ?r' * 20) \<le> 100"
    by (simp add: Math_round_ge Math_round_le)
  have burst: "0 \<le> Math_round (burstinessScore text) \<and> Math_round (burstinessScore text) \<le> 100"
    by (simp add: burstinessScore_def Math_round_ge Math_round_le)
  have vocab: "0 \<le> Math_round (vocabScore text) \<and> Math_round (vocabScore text) \<le> 100"
    by (simp add: vocabScore_def Math_round_ge Math_round_le)
  have "0 \<le> min 100 (variance text * 2)"
    using variance_nonneg [of "text"] by simp
  then have var: "0 \<le> Math_round (min 100 (variance text * 2))
      \<and> Math_round (min 100 (variance text * 2)) \<le> 100"
    by (simp add: Math_round_ge Math_round_le)
  show ?thesis
    using ai perp burst vocab var by (simp add: analyzeResume_def Math_random_def)
qed

theorem C4_fields_in_range_witness:
  "(0::real) \<le> shd (sconst 0) \<and> shd (sconst (0::real)) < 1
   \<and> (0::real) \<le> shd (stl (sconst 0)) \<and> shd (stl (sconst (0::real))) < 1
   \<and> 5 \<le> aiProbability (fst (analyzeResume ''a b'' (sconst 0)))
   \<and> aiProbability (fst (analyzeResume ''a b'' (sconst 0))) \<le> 98
   \<and> 0 \<le> perplexityScore (linguisticAnalysis (fst (analyzeResume ''a b'' (sconst 0))))
   \<and> perplexityScore (linguisticAnalysis (fst (analyzeResume ''a b'' (sconst 0)))) \<le> 100"
  using C4_fields_in_range [of "sconst 0" "''a b''"] by simp

text \<open>
  Claim C8, as stated: one generator value determines the whole record. The function reads
  the generator twice (lines 63 and 88). Two runs on the text \<^verbatim>\<open>a b\<close> whose first value is
  1/2 in both and whose second value is 0 in one and 1/2 in the other report the perplexity
  proxies 33 and 43.
\<close>

theorem C8_counterexample:
  "shd (1 / 2 ## sconst (0::real)) = shd (1 / 2 ## sconst (1 / 2 :: real))
   \<and> perplexityScore (linguisticAnalysis
        (fst (analyzeResume ''a b'' (1 / 2 ## sconst 0)))) = 33
   \<and> perplexityScore (linguisticAnalysis
        (fst (analyzeResume ''a b'' (1 / 2 ## sconst (1 / 2))))) = 43"
  by (simp add: analyzeResume_def Math_random_def humanScore_def ab_aiScore jitter_def
      Math_round_def)

text \<open>
  Claim C8, amended. Each call is a function of the text and of exactly two generator values:
  two runs on the same text in which the first and the second value agree return the same
  record, the call leaves the generator two values further, and when only the first values
  agree the two records agree in every field except the perplexity proxy.
\<close>

theorem C8_two_draws:
  "(shd g = shd g' \<and> shd (stl g) = shd (stl g')
      \<longrightarrow> fst (analyzeResume text g) = fst (analyzeResume text g'))
   \<and> snd (analyzeResume text g) = stl (stl g)
   \<and> (shd g = shd g'
      \<longrightarrow> (fst (analyzeResume text g))
            \<lparr>linguisticAnalysis :=
               (linguisticAnalysis (fst (analyzeResume text g)))\<lparr>perplexityScore := 0\<rparr>\<rparr>
          = (fst (analyzeResume text g'))
            \<lparr>linguisticAnalysis :=
               (linguisticAnalysis (fst (analyzeResume text g')))\<lparr>perplexityScore := 0\<rparr>\<rparr>)"
proof -
  have reads: "analyzeResume text g
      = (fst (analyzeResume text (shd g ## shd (stl g) ## sconst 0)), stl (stl g))"
    for g
    by (simp add: analyzeResume_def Math_random_def)
  have both: "fst (analyzeResume text g) = fst (analyzeResume text g')"
    if "shd g = shd g'" and "shd (stl g) = shd (stl g')"
    using that by (simp add: reads [of g] reads [of g'])
  have first: "(fst (analyzeResume text g))
            \<lparr>linguisticAnalysis :=
               (linguisticAnalysis (fst (analyzeResume text g)))\<lparr>perplexityScore := 0\<rparr>\<rparr>
          = (fst (analyzeResume text g'))
            \<lparr>linguisticAnalysis :=
               (linguisticAnalysis (fst (analyzeResume text g')))\<lparr>perplexityScore := 0\<rparr>\<rparr>"
    if "shd g = shd g'"
    using that by (simp add: analyzeResume_def Math_random_def)
  have "snd (analyzeResume text g) = stl (stl g)"
    by (simp add: reads [of g])
  then show ?thesis
    using both first by blast
qed

theorem C8_two_draws_witness:
  "shd (1 / 2 ## 0 ## sconst (0::real)) = shd (1 / 2 ## 0 ## sconst (1 / 4 :: real))
   \<and> shd (stl (1 / 2 ## 0 ## sconst (0::real))) = shd (stl (1 / 2 ## 0 ## sconst (1 / 4 :: real)))
   \<and> fst (analyzeResume ''a b'' (1 / 2 ## 0 ## sconst 0))
       = fst (analyzeResume ''a b'' (1 / 2 ## 0 ## sconst (1 / 4)))
   \<and> snd (analyzeResume ''a b'' (1 / 2 ## 0 ## sconst 0)) = sconst 0"
  using C8_two_draws [of "1 / 2 ## 0 ## sconst 0" "1 / 2 ## 0 ## sconst (1 / 4)" "''a b''"]
  by simp

subsection \<open>The empty text\<close>














subsection \<open>Eighteen buzzwords\<close>

lemma lev_sentences: "sentences leveraged18 = replicate 18 ''leveraged.''"
  by code_simp

lemma lev_words: "words leveraged18 = replicate 18 ''leveraged''"
  by code_simp

lemma lev_sentenceLengths: "sentenceLengths leveraged18 = replicate 18 1"
  by code_simp

lemma lev_markerCount: "markerCount leveraged18 = 18"
  by code_simp

lemma lev_avgLen: "avgLen leveraged18 = 1"
  by (simp add: avgLen_def lev_sentenceLengths foldl_add_sum_list sum_list_replicate or_one_def)

lemma lev_variance: "variance leveraged18 = 0"
  by (simp add: variance_def lev_avgLen lev_sentenceLengths foldl_add_sum_list
      sum_list_replicate)

lemma lev_stdDev: "stdDev leveraged18 = 0"
  by (simp add: stdDev_def lev_variance)

lemma lev_ttr: "ttr leveraged18 = 1 / 18"
  by (simp add: ttr_def uniqueWords_def lev_words)

lemma lev_markerDensity: "markerDensity leveraged18 = 1"
  by (simp add: markerDensity_def lev_markerCount lev_words)

lemma lev_aiScore: "0 \<le> r \<Longrightarrow> aiScore leveraged18 r = 98"
  by (simp add: aiScore_def lev_stdDev lev_ttr lev_markerDensity jitter_def)

lemma flag_buzzwords_18: "flag_buzzwords 18 = ''High density of buzzwords (18 found)''"
  by code_simp

lemma lev_flags: "flags_of leveraged18 = [flag_monotonic, flag_buzzwords 18, flag_repetitive]"
  by (simp add: flags_of_def lev_stdDev lev_ttr lev_markerCount)

text \<open>
  Claim C6. For the text of 18 copies of \<^verbatim>\<open>leveraged.\<close> and every perturbation in
  \<open>[-5, 5]\<close>: the buzzword count is 18, the type-token ratio is 1/18, the clamped score is the
  ceiling 98, the verdict is true, and the flags are the monotonic-structure entry, the
  buzzword-density entry with 18 interpolated and the repetitive-vocabulary entry.
\<close>

theorem C6_eighteen_buzzwords:
  assumes "- 5 \<le> jitter (shd g)" and "jitter (shd g) \<le> 5"
  shows "markerCount leveraged18 = 18
         \<and> ttr leveraged18 = 1 / 18
         \<and> aiScore leveraged18 (fst (Math_random g)) = 98
         \<and> aiProbability (fst (analyzeResume leveraged18 g)) = 98
         \<and> isAiGenerated (fst (analyzeResume leveraged18 g)) = True
         \<and> flags (fst (analyzeResume leveraged18 g))
             = [''Monotonic sentence structure (Low Burstiness)'',
                ''High density of buzzwords (18 found)'',
                ''Repetitive vocabulary usage'']"
proof -
  have "0 \<le> shd g"
    using assms by (simp add: jitter_def)
  then have score: "aiScore leveraged18 (shd g) = 98"
    by (rule lev_aiScore)
  have "flags_of leveraged18 = [''Monotonic sentence structure (Low Burstiness)'',
                ''High density of buzzwords (18 found)'',
                ''Repetitive vocabulary usage'']"
    unfolding lev_flags flag_buzzwords_18 by (simp add: flag_monotonic_def flag_repetitive_def)
  then show ?thesis
    by (simp add: analyzeResume_def Math_random_def isAi_def score lev_markerCount lev_ttr
        Math_round_def)
qed

theorem C6_eighteen_buzzwords_witness:
  "- 5 \<le> jitter (shd (sconst 0)) \<and> jitter (shd (sconst 0)) \<le> 5
   \<and> leveraged18 = ''leveraged.leveraged.leveraged.leveraged.leveraged.leveraged.leveraged.leveraged.leveraged.leveraged.leveraged.leveraged.leveraged.leveraged.leveraged.leveraged.leveraged.leveraged.''
   \<and> aiProbability (fst (analyzeResume leveraged18 (sconst 0))) = 98
   \<and> isAiGenerated (fst (analyzeResume leveraged18 (sconst 0))) = True"
proof -
  have "leveraged18 = ''leveraged.leveraged.leveraged.leveraged.leveraged.leveraged.leveraged.leveraged.leveraged.leveraged.leveraged.leveraged.leveraged.leveraged.leveraged.leveraged.leveraged.leveraged.''"
    by code_simp
  then show ?thesis
    using C6_eighteen_buzzwords [of "sconst 0"] by (simp add: jitter_def)
qed

subsection \<open>Flags\<close>












subsection \<open>Sentence segmentation\<close>

text \<open>Every text has one of four shapes, and the search treats each in one way: the empty
  text; a terminated run followed by a text that does not start with a terminator; a
  terminator followed by a text; a non-empty text without a terminator.\<close>

lemma scan_sentences_no_terminator:
  "\<forall>c\<in>set s. non_terminator c \<Longrightarrow> scan_sentences s = []"
  by (induction s) (simp_all add: Let_def dropWhile_eq_Nil_conv [THEN iffD2])

lemma scan_sentences_skip:
  "is_terminator c \<Longrightarrow> scan_sentences (c # cs) = scan_sentences cs"
  by (simp add: non_terminator_def)

lemma scan_sentences_dropWhile:
  "scan_sentences (dropWhile is_terminator s) = scan_sentences s"
  by (induction s) (simp_all add: non_terminator_def)

lemma takeWhile_non_terminator_marks:
  "ms \<noteq> [] \<Longrightarrow> \<forall>c\<in>set ms. is_terminator c \<Longrightarrow> takeWhile non_terminator ms = []"
  by (cases ms) (simp_all add: non_terminator_def)

lemma terminated_run_append:
  assumes "body \<noteq> []" and "\<forall>c\<in>set body. non_terminator c"
    and "marks \<noteq> []" and "\<forall>c\<in>set marks. is_terminator c"
  shows "terminated_run (body @ marks)"
proof -
  have t: "takeWhile non_terminator (body @ marks) = body"
    using assms by (simp add: takeWhile_non_terminator_marks)
  have "dropWhile non_terminator (body @ marks) = dropWhile non_terminator marks"
    using assms by simp
  also have "\<dots> = marks"
    using assms by (cases marks) (simp_all add: non_terminator_def)
  finally show ?thesis
    using assms t by (simp add: terminated_run_def list_all_iff)
qed

lemma takeWhile_after_dropWhile: "takeWhile P (dropWhile P xs) = []"
  by (induction xs) simp_all

lemma scan_sentences_shape [case_names Empty Match Skip Tail]:
  assumes empty: "P []"
    and match: "\<And>body marks rest.
      body \<noteq> [] \<Longrightarrow> marks \<noteq> [] \<Longrightarrow>
      \<forall>x\<in>set body. non_terminator x \<Longrightarrow> \<forall>x\<in>set marks. is_terminator x \<Longrightarrow>
      takeWhile is_terminator rest = [] \<Longrightarrow>
      scan_sentences (body @ marks @ rest) = (body @ marks) # scan_sentences rest \<Longrightarrow>
      P rest \<Longrightarrow> P (body @ marks @ rest)"
    and skip: "\<And>c cs. is_terminator c \<Longrightarrow> scan_sentences (c # cs) = scan_sentences cs \<Longrightarrow>
      P cs \<Longrightarrow> P (c # cs)"
    and tail: "\<And>s. s \<noteq> [] \<Longrightarrow> \<forall>x\<in>set s. non_terminator x \<Longrightarrow> scan_sentences s = [] \<Longrightarrow> P s"
  shows "P t"
proof (induction t rule: scan_sentences.induct)
  case 1
  show ?case by (rule empty)
next
  case (2 c cs)
  define body where "body = takeWhile non_terminator (c # cs)"
  define rest where "rest = dropWhile non_terminator (c # cs)"
  define marks where "marks = takeWhile is_terminator rest"
  define rest' where "rest' = dropWhile is_terminator rest"
  have step: "scan_sentences (c # cs) =
      (if body \<noteq> [] \<and> marks \<noteq> [] then (body @ marks) # scan_sentences rest'
       else scan_sentences cs)"
    unfolding body_def rest_def marks_def rest'_def
    by (simp only: scan_sentences.simps Let_def)
  have whole: "c # cs = body @ marks @ rest'"
    unfolding body_def rest_def marks_def rest'_def
    by (simp only: takeWhile_dropWhile_id)
  have body: "\<forall>x\<in>set body. non_terminator x"
    unfolding body_def by (auto dest: set_takeWhileD)
  have marks: "\<forall>x\<in>set marks. is_terminator x"
    unfolding marks_def by (auto dest: set_takeWhileD)
  show ?case
  proof (cases "body \<noteq> [] \<and> marks \<noteq> []")
    case True
    have "P rest'"
      using body_def rest_def marks_def rest'_def True by (rule "2.IH"(1))
    moreover have "takeWhile is_terminator rest' = []"
      unfolding rest'_def by (rule takeWhile_after_dropWhile)
    moreover have "scan_sentences (body @ marks @ rest') = (body @ marks) # scan_sentences rest'"
      using step True by (simp only: whole [symmetric] if_True simp_thms)
    ultimately have "P (body @ marks @ rest')"
      using True body marks by (intro match) simp_all
    then show ?thesis
      by (simp only: whole)
  next
    case False
    have IH: "P cs"
      using body_def rest_def marks_def rest'_def False by (rule "2.IH"(2))
    have scan: "scan_sentences (c # cs) = scan_sentences cs"
      using step False by (simp only: if_False simp_thms)
    show ?thesis
    proof (cases "is_terminator c")
      case True
      then show ?thesis
        using scan IH by (rule skip)
    next
      case nt: False
      then have "body \<noteq> []"
        unfolding body_def by (simp add: non_terminator_def)
      then have "marks = []"
        using False by blast
      then have "rest = [] \<or> \<not> is_terminator (hd rest)"
        unfolding marks_def by (simp only: takeWhile_eq_Nil_iff)
      moreover have "rest \<noteq> [] \<Longrightarrow> \<not> non_terminator (hd rest)"
        unfolding rest_def by (rule hd_dropWhile)
      ultimately have "rest = []"
        by (auto simp: non_terminator_def)
      then have all: "\<forall>x\<in>set (c # cs). non_terminator x"
        unfolding rest_def by (simp only: dropWhile_eq_Nil_conv)
      then have "scan_sentences (c # cs) = []"
        by (rule scan_sentences_no_terminator)
      with all show ?thesis
        by (intro tail) simp_all
    qed
  qed
qed

lemma scan_sentences_runs: "\<forall>s\<in>set (scan_sentences t). terminated_run s"
proof (induction t rule: scan_sentences_shape)
  case (Match body marks rest)
  then show ?case
    by (simp add: terminated_run_append)
qed simp_all

lemma scan_sentences_cover:
  "\<exists>post. (\<forall>c\<in>set post. non_terminator c)
     \<and> t = takeWhile is_terminator t @ concat (scan_sentences t) @ post"
proof (induction t rule: scan_sentences_shape)
  case Empty
  show ?case by simp
next
  case (Match body marks rest)
  then obtain post where "\<forall>c\<in>set post. non_terminator c"
    and "rest = concat (scan_sentences rest) @ post"
    by auto
  moreover have "takeWhile is_terminator (body @ marks @ rest) = []"
    using Match by (cases body) (simp_all add: non_terminator_def)
  ultimately have "(\<forall>c\<in>set post. non_terminator c)
      \<and> body @ marks @ rest = takeWhile is_terminator (body @ marks @ rest)
          @ concat (scan_sentences (body @ marks @ rest)) @ post"
    using Match by simp
  then show ?case by blast
next
  case (Skip c cs)
  then obtain post where "\<forall>c\<in>set post. non_terminator c"
    and "cs = takeWhile is_terminator cs @ concat (scan_sentences cs) @ post"
    by auto
  then have "(\<forall>c\<in>set post. non_terminator c)
      \<and> c # cs = takeWhile is_terminator (c # cs) @ concat (scan_sentences (c # cs)) @ post"
    using Skip by simp
  then show ?case by blast
next
  case (Tail s)
  then have "takeWhile is_terminator s = []"
    by (cases s) (simp_all add: non_terminator_def)
  then have "(\<forall>c\<in>set s. non_terminator c)
      \<and> s = takeWhile is_terminator s @ concat (scan_sentences s) @ s"
    using Tail by simp
  then show ?case by blast
qed

lemma scan_sentences_empty_iff:
  "scan_sentences text = [] \<longleftrightarrow> (\<forall>c\<in>set (dropWhile is_terminator text). non_terminator c)"
proof
  assume empty: "scan_sentences text = []"
  obtain post where post: "\<forall>c\<in>set post. non_terminator c"
    and "text = takeWhile is_terminator text @ concat (scan_sentences text) @ post"
    using scan_sentences_cover by blast
  then have "takeWhile is_terminator text @ dropWhile is_terminator text
      = takeWhile is_terminator text @ post"
    using empty by simp
  then have "dropWhile is_terminator text = post"
    by (simp only: same_append_eq)
  then show "\<forall>c\<in>set (dropWhile is_terminator text). non_terminator c"
    using post by simp
next
  assume "\<forall>c\<in>set (dropWhile is_terminator text). non_terminator c"
  then have "scan_sentences (dropWhile is_terminator text) = []"
    by (rule scan_sentences_no_terminator)
  then show "scan_sentences text = []"
    by (simp add: scan_sentences_dropWhile)
qed

lemma sentences_eq:
  "sentences t = (if scan_sentences t = [] then [t] else scan_sentences t)"
  by (simp add: sentences_def match_result_def)

text \<open>
  Claim C9, as stated: the segmentation consists of the terminated runs of the text. For the
  text \<^verbatim>\<open>.abc\<close>, in which a terminator occurs, the search finds no match and the
  segmentation is the whole text, which is not a terminated run.
\<close>

theorem C9_counterexample:
  "sentences ''.abc'' = [''.abc'']
   \<and> \<not> terminated_run ''.abc''
   \<and> \<not> list_all non_terminator ''.abc''"
  by code_simp

text \<open>
  Claim C9, amended. Let the text be such that some terminator occurs behind a
  non-terminator. Then the segmentation consists of terminated runs, and the text is its
  leading terminators, then the sentences of the segmentation one after the other, then a
  rest without a terminator: the sentences are exactly the maximal runs of non-terminators
  that a terminator follows, each with all the terminators behind it, in text order.
  Otherwise the segmentation is the whole text as one sentence; this is so in particular for
  every text without a terminator.
\<close>

theorem C9_segmentation:
  "(\<not> list_all non_terminator (dropWhile is_terminator text) \<longrightarrow>
      list_all terminated_run (sentences text)
      \<and> (\<exists>post. list_all non_terminator post
            \<and> text = takeWhile is_terminator text @ concat (sentences text) @ post))
   \<and> (list_all non_terminator (dropWhile is_terminator text) \<longrightarrow> sentences text = [text])
   \<and> (list_all non_terminator text \<longrightarrow> sentences text = [text])"
proof -
  have empty: "scan_sentences text = [] \<longleftrightarrow> list_all non_terminator (dropWhile is_terminator text)"
    by (simp add: scan_sentences_empty_iff list_all_iff)
  have runs: "list_all terminated_run (scan_sentences text)"
    using scan_sentences_runs by (simp add: list_all_iff)
  have cover: "\<exists>post. list_all non_terminator post
      \<and> text = takeWhile is_terminator text @ concat (scan_sentences text) @ post"
    using scan_sentences_cover by (simp add: list_all_iff)
  have whole: "list_all non_terminator text
      \<Longrightarrow> list_all non_terminator (dropWhile is_terminator text)"
    by (auto simp: list_all_iff dest: set_dropWhileD)
  show ?thesis
    using empty runs cover whole by (simp add: sentences_eq)
qed

theorem C9_segmentation_witness:
  "\<not> list_all non_terminator (dropWhile is_terminator ''Hi there. Yo!  what'')
   \<and> sentences ''Hi there. Yo!  what'' = [''Hi there.'', '' Yo!'']
   \<and> list_all terminated_run (sentences ''Hi there. Yo!  what'')
   \<and> list_all non_terminator (dropWhile is_terminator ''.abc'')
   \<and> sentences ''.abc'' = [''.abc'']
   \<and> list_all non_terminator ''abc''
   \<and> sentences ''abc'' = [''abc'']"
proof -
  have "\<not> list_all non_terminator (dropWhile is_terminator ''Hi there. Yo!  what'')"
    and "list_all non_terminator (dropWhile is_terminator ''.abc'')"
    and "list_all non_terminator ''abc''"
    and "sentences ''Hi there. Yo!  what'' = [''Hi there.'', '' Yo!'']"
    by code_simp+
  then show ?thesis
    using C9_segmentation [of "''Hi there. Yo!  what''"] C9_segmentation [of "''.abc''"]
      C9_segmentation [of "''abc''"]
    by simp
qed

subsection \<open>Word tokens and the buzzword set\<close>

lemma words_eq: "words t = scan_words (cleanText t)"
  by (simp add: words_def match_result_def)

lemma scan_words_chars: "w \<in> set (scan_words s) \<Longrightarrow> c \<in> set w \<Longrightarrow> is_word_char c"
  by (induction s rule: scan_words.induct) (auto split: if_splits dest: set_takeWhileD)

lemma space_not_word_char: "\<not> is_word_char (CHR '' '')"
  by code_simp

lemma hyphen_not_word_char: "\<not> is_word_char (CHR ''-'')"
  by code_simp

lemma words_not_phrase:
  assumes "w \<in> set (words t)"
  shows "list_all is_word_char w \<and> w \<noteq> ''proven track record'' \<and> w \<noteq> ''results-driven''"
proof -
  have chars: "\<forall>c\<in>set w. is_word_char c"
    using assms scan_words_chars by (auto simp: words_eq)
  have "CHR '' '' \<in> set ''proven track record''" and "CHR ''-'' \<in> set ''results-driven''"
    by simp_all
  then show ?thesis
    using chars space_not_word_char hyphen_not_word_char by (auto simp: list_all_iff)
qed

lemma aiMarkers_split:
  "set aiMarkers = set matchable_markers \<union> {''proven track record'', ''results-driven''}"
  by (auto simp: aiMarkers_def matchable_markers_def)

text \<open>
  Claim C10. For every text, every word token consists of word characters only, so none is
  \<^verbatim>\<open>proven track record\<close> or \<^verbatim>\<open>results-driven\<close>; the buzzword count is the number of tokens
  among the other 16 entries of the 18-entry set.
\<close>

theorem C10_dead_markers:
  "(\<forall>w\<in>set (words text).
      list_all is_word_char w \<and> w \<noteq> ''proven track record'' \<and> w \<noteq> ''results-driven'')
   \<and> markerCount text = length (filter (\<lambda>w. w \<in> set matchable_markers) (words text))
   \<and> set aiMarkers = set matchable_markers \<union> {''proven track record'', ''results-driven''}
   \<and> length aiMarkers = 18 \<and> length matchable_markers = 16"
proof -
  have tokens: "\<forall>w\<in>set (words text).
      list_all is_word_char w \<and> w \<noteq> ''proven track record'' \<and> w \<noteq> ''results-driven''"
    using words_not_phrase by blast
  have "filter (\<lambda>w. w \<in> set aiMarkers) (words text)
      = filter (\<lambda>w. w \<in> set matchable_markers) (words text)"
  proof (rule filter_cong [OF refl])
    fix w
    assume "w \<in> set (words text)"
    then have "w \<noteq> ''proven track record'' \<and> w \<noteq> ''results-driven''"
      using tokens by blast
    then show "(w \<in> set aiMarkers) = (w \<in> set matchable_markers)"
      by (simp add: aiMarkers_split)
  qed
  then have count: "markerCount text
      = length (filter (\<lambda>w. w \<in> set matchable_markers) (words text))"
    by (simp add: markerCount_def)
  have "length aiMarkers = 18" and "length matchable_markers = 16"
    by (simp_all add: aiMarkers_def matchable_markers_def)
  then show ?thesis
    using tokens count aiMarkers_split by blast
qed

theorem C10_dead_markers_witness:
  "words ''Our proven track record is results-driven synergy''
     = [''our'', ''proven'', ''track'', ''record'', ''is'', ''results'', ''driven'', ''synergy'']
   \<and> markerCount ''Our proven track record is results-driven synergy'' = 1
   \<and> ''proven track record'' \<notin> set (words ''Our proven track record is results-driven synergy'')"
proof -
  have "words ''Our proven track record is results-driven synergy''
     = [''our'', ''proven'', ''track'', ''record'', ''is'', ''results'', ''driven'', ''synergy'']"
    and "markerCount ''Our proven track record is results-driven synergy'' = 1"
    by code_simp+
  then show ?thesis
    using C10_dead_markers [of "''Our proven track record is results-driven synergy''"]
    by simp
qed

end
